theory Spec2Isabelle
  imports Main
begin

section \<open>The hierarchical-menu connector: data model\<close>

text \<open>
  The connector is a set of pure JavaScript functions over plain objects. A JavaScript value
  that is either a string or \<open>undefined\<close>/\<open>null\<close> is a \<open>string option\<close>; an exception
  is the left summand of a sum type.
\<close>

datatype error = TypeError | Error string

text \<open>The widget's props, with the fields the connector reads (\<open>id_prop\<close> is \<open>props.id\<close>).\<close>

record props =
  id_prop :: "string option"
  attributes :: "string list option"
  separator :: string
  rootPath :: "string option"
  showParentLevel :: bool
  defaultRefinement :: "string option"
  showMore :: bool
  limitMin :: int
  limitMax :: int

text \<open>
  The local refinement state is a plain object. Its own properties are refinement strings,
  keyed by widget identifiers.
\<close>

type_synonym state = "string \<rightharpoonup> string"

text \<open>
  A property read \<open>state[k]\<close> does not stop at the own properties: a key that the object
  does not have is looked up in \<open>Object.prototype\<close>. So the read gives a string, or one of the
  members every plain object inherits: the native functions, and \<open>Object.prototype\<close> itself
  under \<open>__proto__\<close>.
\<close>

datatype jsValue = JsString string | NativeFunction string | ObjectPrototype

definition objectPrototype :: "string \<rightharpoonup> jsValue" where
  "objectPrototype k =
     (if k = ''__proto__'' then Some ObjectPrototype
      else if k = ''constructor'' then Some (NativeFunction ''Object'')
      else if k \<in> set [''__defineGetter__'', ''__defineSetter__'', ''hasOwnProperty'',
                        ''__lookupGetter__'', ''__lookupSetter__'', ''isPrototypeOf'',
                        ''propertyIsEnumerable'', ''toString'', ''valueOf'', ''toLocaleString'']
      then Some (NativeFunction k)
      else None)"

definition getProperty :: "state \<Rightarrow> string \<Rightarrow> jsValue option" where
  "getProperty s k = (case s k of Some v \<Rightarrow> Some (JsString v) | None \<Rightarrow> objectPrototype k)"

text \<open>
  Truthiness: \<open>undefined\<close>, \<open>null\<close> and the empty string are falsy; functions and objects are
  truthy.
\<close>

definition truthy :: "string option \<Rightarrow> bool" where
  "truthy v = (case v of None \<Rightarrow> False | Some x \<Rightarrow> x \<noteq> [])"

definition truthyValue :: "jsValue option \<Rightarrow> bool" where
  "truthyValue v =
     (case v of None \<Rightarrow> False | Some (JsString x) \<Rightarrow> x \<noteq> [] | Some _ \<Rightarrow> True)"

text \<open>
  The string a value becomes as a property key or inside a template literal:
  \<open>undefined\<close> becomes the string \<open>undefined\<close>, \<open>null\<close> the string \<open>null\<close>, a native
  function its source text.
\<close>

definition jsToString :: "string option \<Rightarrow> string" where
  "jsToString v = (case v of None \<Rightarrow> ''undefined'' | Some x \<Rightarrow> x)"

definition valueToString :: "jsValue option \<Rightarrow> string" where
  "valueToString v =
     (case v of
        None \<Rightarrow> ''null''
      | Some (JsString x) \<Rightarrow> x
      | Some (NativeFunction n) \<Rightarrow> ''function '' @ n @ ''() { [native code] }''
      | Some ObjectPrototype \<Rightarrow> ''[object Object]'')"

section \<open>Identifier and current refinement\<close>

text \<open>Index 0 of an array: \<open>undefined\<close> when the array is empty.\<close>

definition index0 :: "'a list \<Rightarrow> 'a option" where
  "index0 xs = (case xs of [] \<Rightarrow> None | x # _ \<Rightarrow> Some x)"

text \<open>
  \<open>getId = props => props.attributes[0]\<close>: reading index 0 of \<open>undefined\<close> throws a
  TypeError.
\<close>

definition getId :: "props \<Rightarrow> error + string option" where
  "getId p =
     (case attributes p of
        None \<Rightarrow> Inl TypeError
      | Some as \<Rightarrow> Inr (index0 as))"

text \<open>The result is \<open>null\<close> (\<open>None\<close>), the value read from the state, or the default.\<close>

definition getCurrentRefinement :: "props \<Rightarrow> state \<Rightarrow> error + jsValue option" where
  "getCurrentRefinement p s =
     (case getId p of
        Inl e \<Rightarrow> Inl e
      | Inr i \<Rightarrow>
          (case getProperty s (jsToString i) of
             Some v \<Rightarrow> (if v = JsString [] then Inr None else Inr (Some v))
           | None \<Rightarrow>
               (if truthy (defaultRefinement p)
                then Inr (map_option JsString (defaultRefinement p))
                else Inr None)))"

section \<open>The external search-parameters engine\<close>

text \<open>
  The connector calls the search-parameters value type of an external library. Its
  operations are a parameter of the model, and each call may throw: \<open>'sp\<close> is the type of
  search-parameters values, \<open>newSearchParameters\<close> is the constructor on a list of
  hierarchical facets, \<open>setQueryParameters\<close> is the call with the single key
  \<open>maxValuesPerFacet\<close>, and \<open>maxValuesPerFacet\<close> reads that field (\<open>undefined\<close> is \<open>None\<close>).
\<close>

record hierarchicalFacet =
  hf_name :: "string option"
  hf_attributes :: "string list option"
  hf_separator :: string
  hf_rootPath :: "string option"
  hf_showParentLevel :: bool

record 'sp engine =
  newSearchParameters :: "hierarchicalFacet list \<Rightarrow> error + 'sp"
  addHierarchicalFacet :: "'sp \<Rightarrow> hierarchicalFacet \<Rightarrow> error + 'sp"
  setQueryParameters :: "'sp \<Rightarrow> int \<Rightarrow> error + 'sp"
  toggleHierarchicalFacetRefinement :: "'sp \<Rightarrow> string option \<Rightarrow> jsValue \<Rightarrow> error + 'sp"
  getHierarchicalRefinement :: "'sp \<Rightarrow> string option \<Rightarrow> error + jsValue list"
  maxValuesPerFacet :: "'sp \<Rightarrow> int option"

section \<open>The toggle value of a node\<close>

definition getValue :: "'sp engine \<Rightarrow> string \<Rightarrow> props \<Rightarrow> state \<Rightarrow> error + jsValue option" where
  "getValue E pth p s =
     (case getCurrentRefinement p s of
        Inl e \<Rightarrow> Inl e
      | Inr None \<Rightarrow> Inr (Some (JsString pth))
      | Inr (Some cur) \<Rightarrow>
          (case newSearchParameters E
                  [\<lparr> hf_name = id_prop p, hf_attributes = attributes p,
                     hf_separator = separator p, hf_rootPath = rootPath p,
                     hf_showParentLevel = showParentLevel p \<rparr>] of
             Inl e \<Rightarrow> Inl e
           | Inr tmpSearchParameters \<Rightarrow>
               (case toggleHierarchicalFacetRefinement E tmpSearchParameters (id_prop p) cur of
                  Inl e \<Rightarrow> Inl e
                | Inr toggled \<Rightarrow>
                    (case toggleHierarchicalFacetRefinement E toggled (id_prop p)
                            (JsString pth) of
                       Inl e \<Rightarrow> Inl e
                     | Inr toggled' \<Rightarrow>
                         (case getHierarchicalRefinement E toggled' (id_prop p) of
                            Inl e \<Rightarrow> Inl e
                          | Inr refinement \<Rightarrow> Inr (index0 refinement))))))"

section \<open>The item tree\<close>

text \<open>A facet value node of the engine's results, and the display item made from it.\<close>

datatype facetValue =
  FacetValue (name: string) (path: string) (count: int) (isRefined: bool)
    (data: "facetValue list option")

datatype item =
  Item (label: string) (item_value: "jsValue option") (item_count: int)
    (item_isRefined: bool) (children: "item list option")

text \<open>
  \<open>xs.slice(0, end)\<close> for an integer \<open>end\<close> (the limits of the widget are whole numbers):
  a negative \<open>end\<close> counts from the end of the array, and the result is empty when that
  falls before index 0.
\<close>

definition slice0 :: "'a list \<Rightarrow> int \<Rightarrow> 'a list" where
  "slice0 xs end = (if end < 0 then take (nat (int (length xs) + end)) xs else take (nat end) xs)"

text \<open>\<open>xs.map(f)\<close> for a callback that may throw: the first exception ends the loop.\<close>

fun mapE :: "('a \<Rightarrow> error + 'b) \<Rightarrow> 'a list \<Rightarrow> error + 'b list" where
  "mapE f [] = Inr []"
| "mapE f (x # xs) =
     (case f x of
        Inl e \<Rightarrow> Inl e
      | Inr y \<Rightarrow> (case mapE f xs of Inl e \<Rightarrow> Inl e | Inr ys \<Rightarrow> Inr (y # ys)))"

lemma mapE_cong [fundef_cong]:
  "xs = ys \<Longrightarrow> (\<And>x. x \<in> set ys \<Longrightarrow> f x = g x) \<Longrightarrow> mapE f xs = mapE g ys"
  by (induction ys arbitrary: xs) (auto split: sum.splits)

lemma size_facetValue_member: "v \<in> set vs \<Longrightarrow> size v \<le> size_list size vs"
  by (induction vs) auto

lemma size_data_less: "data v = Some d \<Longrightarrow> size_list size d < size v"
  by (cases v) simp

lemma set_slice0: "set (slice0 xs n) \<subseteq> set xs"
  by (auto simp: slice0_def dest: in_set_takeD)

function transformValue ::
  "'sp engine \<Rightarrow> facetValue list \<Rightarrow> int \<Rightarrow> props \<Rightarrow> state \<Rightarrow> error + item list" where
  "transformValue E vals limit p s =
     (let limitValue = slice0 vals limit in
      mapE (\<lambda>v.
          case getValue E (path v) p s of
            Inl e \<Rightarrow> Inl e
          | Inr val \<Rightarrow>
              (case (case data v of
                       None \<Rightarrow> Inr None
                     | Some d \<Rightarrow>
                         (case transformValue E d limit p s of
                            Inl e \<Rightarrow> Inl e
                          | Inr c \<Rightarrow> Inr (Some c))) of
                 Inl e \<Rightarrow> Inl e
               | Inr ch \<Rightarrow> Inr (Item (name v) val (count v) (isRefined v) ch)))
        limitValue)"
  by pat_completeness auto
termination
proof (relation "measure (\<lambda>(E, vals, limit, p, s). size_list size vals)", goal_cases)
  case 1
  show ?case by simp
next
  case (2 E vals limit p s limitValue v val d)
  have "set limitValue \<subseteq> set vals" unfolding 2(1) by (rule set_slice0)
  with 2(2) have "v \<in> set vals" ..
  then have "size v \<le> size_list size vals" by (rule size_facetValue_member)
  with size_data_less [OF 2(4)] have "size_list size d < size_list size vals" by linarith
  then show ?case unfolding in_measure by (simp only: prod.case)
qed

declare transformValue.simps [simp del]

section \<open>The connector's four operations\<close>

text \<open>
  The results object of the engine, whose calls may throw as well: \<open>getFacetByName\<close> is the
  truthiness of the facet it returns, and \<open>getFacetValues\<close> takes the facet name and the
  \<open>sortBy\<close> option and returns an object of which only \<open>data\<close> is read.
\<close>

record facetValues =
  fv_data :: "facetValue list option"

record searchResults =
  getFacetByName :: "string option \<Rightarrow> error + bool"
  getFacetValues :: "string option \<Rightarrow> string list \<Rightarrow> error + facetValues"

record search =
  results :: "searchResults option"

record viewProps =
  items :: "item list"
  currentRefinement :: "jsValue option"

definition sortBy :: "string list" where
  "sortBy = [''name:asc'']"

definition getProps ::
  "'sp engine \<Rightarrow> props \<Rightarrow> state \<Rightarrow> search \<Rightarrow> error + viewProps option" where
  "getProps E p s srch =
     (case attributes p of
        None \<Rightarrow> Inl (Error ''attributes props should at least have one element'')
      | Some as \<Rightarrow>
          if length as = 0
          then Inl (Error ''attributes props should at least have one element'')
          else
            (case getId p of
               Inl e \<Rightarrow> Inl e
             | Inr i \<Rightarrow>
                 (case (case results srch of
                          None \<Rightarrow> Inr False
                        | Some r \<Rightarrow> getFacetByName r i) of
                    Inl e \<Rightarrow> Inl e
                  | Inr isFacetPresent \<Rightarrow>
                      if \<not> isFacetPresent then Inr None
                      else
                        (case results srch of
                           None \<Rightarrow> Inr None
                         | Some r \<Rightarrow>
                             (let limit = (if showMore p then limitMax p else limitMin p) in
                              case getFacetValues r i sortBy of
                                Inl e \<Rightarrow> Inl e
                              | Inr val \<Rightarrow>
                                  (case (case fv_data val of
                                           Some d \<Rightarrow> transformValue E d limit p s
                                         | None \<Rightarrow> Inr []) of
                                     Inl e \<Rightarrow> Inl e
                                   | Inr its \<Rightarrow>
                                       (case getCurrentRefinement p s of
                                          Inl e \<Rightarrow> Inl e
                                        | Inr cur \<Rightarrow>
                                            Inr (Some \<lparr> items = its,
                                                         currentRefinement = cur \<rparr>))))))))"

text \<open>
  \<open>nextRefinement || ''\<close> is the empty string for \<open>null\<close>, \<open>undefined\<close> and the empty
  string, and the refinement otherwise. The object literal with a computed key gives the
  result an own property under the identifier.
\<close>

definition refine :: "props \<Rightarrow> state \<Rightarrow> string option \<Rightarrow> error + state" where
  "refine p s nextRefinement =
     (case attributes p of
        None \<Rightarrow> Inl (Error ''attributes props should at least have one element'')
      | Some as \<Rightarrow>
          if length as = 0
          then Inl (Error ''attributes props should at least have one element'')
          else
            (case getId p of
               Inl e \<Rightarrow> Inl e
             | Inr i \<Rightarrow>
                 Inr (s(jsToString i \<mapsto>
                        (if truthy nextRefinement then jsToString nextRefinement else '''')))))"

text \<open>
  The facet is added first, then \<open>maxValuesPerFacet\<close> is set from the field of the input,
  then the current refinement is toggled; the first call that throws ends the operation.
\<close>

definition getSearchParameters :: "'sp engine \<Rightarrow> 'sp \<Rightarrow> props \<Rightarrow> state \<Rightarrow> error + 'sp" where
  "getSearchParameters E searchParameters p s =
     (case attributes p of
        None \<Rightarrow> Inl (Error ''attributes props should at least have one element'')
      | Some as \<Rightarrow>
          if length as = 0
          then Inl (Error ''attributes props should at least have one element'')
          else
            (case getId p of
               Inl e \<Rightarrow> Inl e
             | Inr i \<Rightarrow>
                 (let limit = (if showMore p then limitMax p else limitMin p) in
                  case addHierarchicalFacet E searchParameters
                         \<lparr> hf_name = i, hf_attributes = attributes p,
                           hf_separator = separator p, hf_rootPath = rootPath p,
                           hf_showParentLevel = showParentLevel p \<rparr> of
                    Inl e \<Rightarrow> Inl e
                  | Inr added \<Rightarrow>
                      (case setQueryParameters E added
                              (max (case maxValuesPerFacet E searchParameters of
                                      None \<Rightarrow> 0
                                    | Some m \<Rightarrow> m)
                                   limit) of
                         Inl e \<Rightarrow> Inl e
                       | Inr searchParameters' \<Rightarrow>
                           (case getCurrentRefinement p s of
                              Inl e \<Rightarrow> Inl e
                            | Inr None \<Rightarrow> Inr searchParameters'
                            | Inr (Some cur) \<Rightarrow>
                                toggleHierarchicalFacetRefinement E searchParameters' i cur)))))"

text \<open>
  The metadata of the widget. The field \<open>value\<close> of an entry is the function that clears
  the widget's refinement in a state (\<open>md_value\<close>).
\<close>

record metadataItem =
  md_label :: string
  md_attributeName :: "string option"
  md_value :: "state \<Rightarrow> state"
  md_currentRefinement :: "jsValue option"

record metadata =
  md_id :: "string option"
  md_items :: "metadataItem list"

definition getMetadata :: "props \<Rightarrow> state \<Rightarrow> error + metadata" where
  "getMetadata p s =
     (case attributes p of
        None \<Rightarrow> Inl (Error ''attributes props should at least have one element'')
      | Some as \<Rightarrow>
          if length as = 0
          then Inl (Error ''attributes props should at least have one element'')
          else
            (let rootAttribute = index0 as in
             case getId p of
               Inl e \<Rightarrow> Inl e
             | Inr i \<Rightarrow>
                 (case getCurrentRefinement p s of
                    Inl e \<Rightarrow> Inl e
                  | Inr cur \<Rightarrow>
                      Inr \<lparr> md_id = i,
                            md_items =
                              (if \<not> truthyValue cur then []
                               else [\<lparr> md_label =
                                         jsToString rootAttribute @ '': '' @ valueToString cur,
                                       md_attributeName = rootAttribute,
                                       md_value = (\<lambda>nextState. nextState(jsToString i \<mapsto> '''')),
                                       md_currentRefinement = cur \<rparr>]) \<rparr>)))"

section \<open>refine on a store\<close>

text \<open>
  The object literal \<open>{...state, [id]: v}\<close> allocates a fresh object, copies the
  properties of \<open>state\<close> into it and sets \<open>id\<close>. On a store of objects with a counter of
  the next free address, \<open>refine\<close> takes the address of the state and returns the address
  of the new object.
\<close>

type_synonym address = nat

record store =
  objects :: "address \<Rightarrow> state"
  fresh :: address

definition refineStore ::
  "props \<Rightarrow> store \<Rightarrow> address \<Rightarrow> string option \<Rightarrow> error + store \<times> address" where
  "refineStore p h a nextRefinement =
     (case refine p (objects h a) nextRefinement of
        Inl e \<Rightarrow> Inl e
      | Inr s' \<Rightarrow>
          Inr (h\<lparr> objects := (objects h)(fresh h := s'), fresh := Suc (fresh h) \<rparr>, fresh h))"

section \<open>Sample inputs\<close>

definition categoriesProps :: props where
  "categoriesProps =
     \<lparr> id_prop = None, attributes = Some [''categories''], separator = '' > '',
       rootPath = None, showParentLevel = True, defaultRefinement = None,
       showMore = False, limitMin = 10, limitMax = 20 \<rparr>"

text \<open>
  A small search-parameters implementation, used only to run the operations on concrete
  inputs. It follows the library in this: declaring a hierarchical facet under a name that
  is already declared throws; a toggle on the value that is refined clears the refinement
  and a toggle on another value replaces it; and a toggle throws a TypeError when the
  refinement in place is not a string.
\<close>

record searchParameters =
  sp_maxValuesPerFacet :: "int option"
  sp_hierarchicalFacets :: "hierarchicalFacet list"
  sp_hierarchicalFacetsRefinements :: "(string option \<times> jsValue list) list"

definition sampleRefinement :: "searchParameters \<Rightarrow> string option \<Rightarrow> jsValue list" where
  "sampleRefinement sp i =
     (case map_of (sp_hierarchicalFacetsRefinements sp) i of None \<Rightarrow> [] | Some xs \<Rightarrow> xs)"

definition sampleToggle ::
  "searchParameters \<Rightarrow> string option \<Rightarrow> jsValue \<Rightarrow> error + searchParameters" where
  "sampleToggle sp i v =
     (case sampleRefinement sp i of
        [] \<Rightarrow>
          Inr (sp\<lparr> sp_hierarchicalFacetsRefinements :=
                     (i, [v]) # sp_hierarchicalFacetsRefinements sp \<rparr>)
      | JsString c # _ \<Rightarrow>
          Inr (sp\<lparr> sp_hierarchicalFacetsRefinements :=
                     (i, if JsString c = v then [] else [v])
                     # sp_hierarchicalFacetsRefinements sp \<rparr>)
      | _ # _ \<Rightarrow> Inl TypeError)"

definition sampleEngine :: "searchParameters engine" where
  "sampleEngine =
     \<lparr> newSearchParameters =
         (\<lambda>hs. Inr \<lparr> sp_maxValuesPerFacet = None, sp_hierarchicalFacets = hs,
                     sp_hierarchicalFacetsRefinements = [] \<rparr>),
       addHierarchicalFacet =
         (\<lambda>sp h. if hf_name h \<in> set (map hf_name (sp_hierarchicalFacets sp))
                 then Inl (Error (''Cannot declare two hierarchical facets with the same name: `''
                                  @ jsToString (hf_name h) @ ''`''))
                 else Inr (sp\<lparr> sp_hierarchicalFacets := sp_hierarchicalFacets sp @ [h] \<rparr>)),
       setQueryParameters = (\<lambda>sp n. Inr (sp\<lparr> sp_maxValuesPerFacet := Some n \<rparr>)),
       toggleHierarchicalFacetRefinement = sampleToggle,
       getHierarchicalRefinement = (\<lambda>sp i. Inr (sampleRefinement sp i)),
       maxValuesPerFacet = sp_maxValuesPerFacet \<rparr>"

definition emptySearchParameters :: searchParameters where
  "emptySearchParameters =
     \<lparr> sp_maxValuesPerFacet = None, sp_hierarchicalFacets = [],
       sp_hierarchicalFacetsRefinements = [] \<rparr>"

definition sampleStore :: store where
  "sampleStore =
     \<lparr> objects = (\<lambda>a. if a = 0 then [''brand'' \<mapsto> ''x'', ''categories'' \<mapsto> ''Shoes'']
                        else Map.empty),
       fresh = 1 \<rparr>"

definition sampleResults :: searchResults where
  "sampleResults =
     \<lparr> getFacetByName = (\<lambda>n. Inr (n = Some ''categories'')),
       getFacetValues =
         (\<lambda>n sb. if n = Some ''categories''
                  then Inr \<lparr> fv_data = Some
                         [FacetValue ''Shoes'' ''Shoes'' 10 False
                            (Some [FacetValue ''Sneakers'' ''Shoes > Sneakers'' 4 False None])] \<rparr>
                  else Inr \<lparr> fv_data = None \<rparr>) \<rparr>"

definition shoesTree :: "facetValue list" where
  "shoesTree =
     [FacetValue ''Shoes'' ''Shoes'' 10 False
        (Some [FacetValue ''Sneakers'' ''Shoes > Sneakers'' 4 False None,
               FacetValue ''Boots'' ''Shoes > Boots'' 6 False None]),
      FacetValue ''Hats'' ''Hats'' 3 False None,
      FacetValue ''Bags'' ''Bags'' 2 False None]"

section \<open>Auxiliary facts\<close>

lemma getId_first: "attributes p = Some (i # rest) \<Longrightarrow> getId p = Inr (Some i)"
  by (simp add: getId_def index0_def)

lemma objectPrototype_not_string: "objectPrototype k \<noteq> Some (JsString x)"
  by (simp add: objectPrototype_def)

lemma getProperty_own: "s k = Some v \<Longrightarrow> getProperty s k = Some (JsString v)"
  by (simp add: getProperty_def)

lemma getProperty_inherited: "s k = None \<Longrightarrow> getProperty s k = objectPrototype k"
  by (simp add: getProperty_def)

lemma getCurrentRefinement_first:
  assumes "attributes p = Some (i # rest)"
  shows "getCurrentRefinement p s =
           Inr (case getProperty s i of
                  Some v \<Rightarrow> (if v = JsString [] then None else Some v)
                | None \<Rightarrow>
                    (if truthy (defaultRefinement p)
                     then map_option JsString (defaultRefinement p) else None))"
  using assms
  by (simp add: getCurrentRefinement_def getId_first jsToString_def split: option.splits)

lemma getCurrentRefinement_truthy:
  "getCurrentRefinement p s = Inr (Some c) \<Longrightarrow> truthyValue (Some c)"
  by (cases c)
    (auto simp: getCurrentRefinement_def truthy_def truthyValue_def
      split: sum.splits option.splits if_splits)

lemma getCurrentRefinement_defined:
  "attributes p = Some as \<Longrightarrow> \<not> isl (getCurrentRefinement p s)"
  by (simp add: getCurrentRefinement_def getId_def split: option.splits)

lemma refine_first:
  "attributes p = Some (i # rest) \<Longrightarrow>
   refine p s nx = Inr (s(i \<mapsto> (if truthy nx then jsToString nx else '''')))"
  by (simp add: refine_def getId_first jsToString_def)

lemma getMetadata_first:
  assumes "attributes p = Some (i # rest)" and "getCurrentRefinement p s = Inr cur"
  shows "getMetadata p s =
     Inr \<lparr> md_id = Some i,
           md_items =
             (if \<not> truthyValue cur then []
              else [\<lparr> md_label = i @ '': '' @ valueToString cur,
                      md_attributeName = Some i,
                      md_value = (\<lambda>nextState. nextState(i \<mapsto> '''')),
                      md_currentRefinement = cur \<rparr>]) \<rparr>"
  using assms by (simp add: getMetadata_def getId_first index0_def jsToString_def Let_def)

lemma getProps_first:
  assumes "attributes p = Some (i # rest)"
  shows "getProps E p s srch =
     (case results srch of
        None \<Rightarrow> Inr None
      | Some r \<Rightarrow>
          (case getFacetByName r (Some i) of
             Inl e \<Rightarrow> Inl e
           | Inr isFacetPresent \<Rightarrow>
               if \<not> isFacetPresent then Inr None
               else
                 (case getFacetValues r (Some i) sortBy of
                    Inl e \<Rightarrow> Inl e
                  | Inr val \<Rightarrow>
                      (case (case fv_data val of
                               Some d \<Rightarrow>
                                 transformValue E d
                                   (if showMore p then limitMax p else limitMin p) p s
                             | None \<Rightarrow> Inr []) of
                         Inl e \<Rightarrow> Inl e
                       | Inr its \<Rightarrow>
                           (case getCurrentRefinement p s of
                              Inl e \<Rightarrow> Inl e
                            | Inr cur \<Rightarrow>
                                Inr (Some \<lparr> items = its, currentRefinement = cur \<rparr>))))))"
  using assms
  by (simp add: getProps_def getId_first Let_def split: option.splits sum.splits)

lemma getSearchParameters_first:
  assumes "attributes p = Some (i # rest)"
  shows "getSearchParameters E sp p s =
     (case addHierarchicalFacet E sp
             \<lparr> hf_name = Some i, hf_attributes = attributes p,
               hf_separator = separator p, hf_rootPath = rootPath p,
               hf_showParentLevel = showParentLevel p \<rparr> of
        Inl e \<Rightarrow> Inl e
      | Inr added \<Rightarrow>
          (case setQueryParameters E added
                  (max (case maxValuesPerFacet E sp of None \<Rightarrow> 0 | Some m \<Rightarrow> m)
                       (if showMore p then limitMax p else limitMin p)) of
             Inl e \<Rightarrow> Inl e
           | Inr sp' \<Rightarrow>
               (case getCurrentRefinement p s of
                  Inl e \<Rightarrow> Inl e
                | Inr None \<Rightarrow> Inr sp'
                | Inr (Some cur) \<Rightarrow> toggleHierarchicalFacetRefinement E sp' (Some i) cur)))"
  using assms
  by (simp add: getSearchParameters_def getId_first Let_def)

lemma getValue_null:
  "getCurrentRefinement p s = Inr None \<Longrightarrow> getValue E pth p s = Inr (Some (JsString pth))"
  by (simp add: getValue_def)

lemma mapE_total:
  "\<forall>x\<in>set xs. \<not> isl (f x) \<Longrightarrow> \<not> isl (mapE f xs)"
  by (induction xs) (auto split: sum.splits)

lemma mapE_Inl_member:
  assumes "mapE f xs = Inl e"
  obtains x where "x \<in> set xs" and "f x = Inl e"
  using assms
proof (induction xs arbitrary: thesis)
  case Nil
  then show ?case by simp
next
  case (Cons x xs)
  show ?case
  proof (cases "f x")
    case (Inl e')
    with Cons.prems(2) have "f x = Inl e" by simp
    with Cons.prems(1) [of x] show ?thesis by simp
  next
    case (Inr y)
    with Cons.prems(2) have "mapE f xs = Inl e" by (simp split: sum.splits)
    from Cons.IH [OF _ this] Cons.prems(1) show ?thesis by auto
  qed
qed

lemma mapE_Inr_nth:
  "mapE f xs = Inr ys \<Longrightarrow>
   length ys = length xs \<and> (\<forall>k<length xs. f (xs ! k) = Inr (ys ! k))"
proof (induction xs arbitrary: ys)
  case Nil
  then show ?case by simp
next
  case (Cons x xs)
  from Cons.prems obtain y ys' where y: "f x = Inr y" and ys': "mapE f xs = Inr ys'"
    and ys: "ys = y # ys'"
    by (auto split: sum.splits)
  from Cons.IH [OF ys'] y ys show ?case
    by (auto simp: nth_Cons split: nat.splits)
qed

lemma transformValue_defined:
  "(\<And>pth. \<not> isl (getValue E pth p s)) \<Longrightarrow> \<not> isl (transformValue E vals limit p s)"
proof (induction E vals limit p s rule: transformValue.induct)
  case (1 E vals limit p s)
  let ?f = "\<lambda>v. case getValue E (path v) p s of
            Inl e \<Rightarrow> Inl e
          | Inr val \<Rightarrow>
              (case (case data v of
                       None \<Rightarrow> Inr None
                     | Some d \<Rightarrow>
                         (case transformValue E d limit p s of
                            Inl e \<Rightarrow> Inl e
                          | Inr c \<Rightarrow> Inr (Some c))) of
                 Inl e \<Rightarrow> Inl e
               | Inr ch \<Rightarrow> Inr (Item (name v) val (count v) (isRefined v) ch))"
  have "\<not> isl (?f v)" if v: "v \<in> set (slice0 vals limit)" for v
  proof -
    obtain val where val: "getValue E (path v) p s = Inr val"
      using "1.prems" [of "path v"] by (cases "getValue E (path v) p s") auto
    show ?thesis
    proof (cases "data v")
      case None
      with val show ?thesis by simp
    next
      case (Some d)
      from "1.IH" [OF refl v val Some "1.prems"]
      obtain c where "transformValue E d limit p s = Inr c"
        by (cases "transformValue E d limit p s") auto
      with val Some show ?thesis by simp
    qed
  qed
  then have "\<not> isl (mapE ?f (slice0 vals limit))"
    by (intro mapE_total) blast
  moreover have "transformValue E vals limit p s = mapE ?f (slice0 vals limit)"
    by (subst transformValue.simps) (simp only: Let_def)
  ultimately show ?case by (simp only: not_False_eq_True)
qed

lemma slice0_nth: "k < length (slice0 xs n) \<Longrightarrow> slice0 xs n ! k = xs ! k"
  by (simp add: slice0_def split: if_splits)

lemma length_slice0: "0 \<le> n \<Longrightarrow> length (slice0 xs n) = min (nat n) (length xs)"
  by (simp add: slice0_def min_def)

lemma transformValue_nodes:
  assumes "transformValue E vals limit p s = Inr its"
  shows "length its = length (slice0 vals limit)
       \<and> (\<forall>k<length its.
            \<exists>val ch. its ! k = Item (name (vals ! k)) val (count (vals ! k))
                                  (isRefined (vals ! k)) ch
              \<and> getValue E (path (vals ! k)) p s = Inr val
              \<and> (case data (vals ! k) of
                    None \<Rightarrow> ch = None
                  | Some d \<Rightarrow> \<exists>c. ch = Some c \<and> transformValue E d limit p s = Inr c))"
proof -
  let ?f = "\<lambda>v. case getValue E (path v) p s of
            Inl e \<Rightarrow> Inl e
          | Inr val \<Rightarrow>
              (case (case data v of
                       None \<Rightarrow> Inr None
                     | Some d \<Rightarrow>
                         (case transformValue E d limit p s of
                            Inl e \<Rightarrow> Inl e
                          | Inr c \<Rightarrow> Inr (Some c))) of
                 Inl e \<Rightarrow> Inl e
               | Inr ch \<Rightarrow> Inr (Item (name v) val (count v) (isRefined v) ch))"
  have "transformValue E vals limit p s = mapE ?f (slice0 vals limit)"
    by (subst transformValue.simps) (simp only: Let_def)
  with assms have m: "mapE ?f (slice0 vals limit) = Inr its" by simp
  from mapE_Inr_nth [OF m]
  have len: "length its = length (slice0 vals limit)"
    and nodes: "\<forall>k<length (slice0 vals limit). ?f (slice0 vals limit ! k) = Inr (its ! k)"
    by simp_all
  have "\<exists>val ch. its ! k = Item (name (vals ! k)) val (count (vals ! k))
                                  (isRefined (vals ! k)) ch
              \<and> getValue E (path (vals ! k)) p s = Inr val
              \<and> (case data (vals ! k) of
                    None \<Rightarrow> ch = None
                  | Some d \<Rightarrow> \<exists>c. ch = Some c \<and> transformValue E d limit p s = Inr c)"
    if k: "k < length its" for k
  proof -
    from k len have k': "k < length (slice0 vals limit)" by simp
    with nodes have "?f (slice0 vals limit ! k) = Inr (its ! k)" by blast
    then have "?f (vals ! k) = Inr (its ! k)" by (simp only: slice0_nth [OF k'])
    then show ?thesis
      by (auto split: sum.splits option.splits)
  qed
  with len show ?thesis by blast
qed

lemma transformValue_error_from_getValue:
  "transformValue E vals limit p s = Inl e \<Longrightarrow> \<exists>pth. getValue E pth p s = Inl e"
proof (induction E vals limit p s rule: transformValue.induct)
  case (1 E vals limit p s)
  let ?f = "\<lambda>v. case getValue E (path v) p s of
            Inl e \<Rightarrow> Inl e
          | Inr val \<Rightarrow>
              (case (case data v of
                       None \<Rightarrow> Inr None
                     | Some d \<Rightarrow>
                         (case transformValue E d limit p s of
                            Inl e \<Rightarrow> Inl e
                          | Inr c \<Rightarrow> Inr (Some c))) of
                 Inl e \<Rightarrow> Inl e
               | Inr ch \<Rightarrow> Inr (Item (name v) val (count v) (isRefined v) ch))"
  have "transformValue E vals limit p s = mapE ?f (slice0 vals limit)"
    by (subst transformValue.simps) (simp only: Let_def)
  with "1.prems" have "mapE ?f (slice0 vals limit) = Inl e" by simp
  then obtain v where v: "v \<in> set (slice0 vals limit)" and fv: "?f v = Inl e"
    by (rule mapE_Inl_member)
  show ?case
  proof (cases "getValue E (path v) p s")
    case (Inl e')
    with fv show ?thesis by auto
  next
    case (Inr val)
    show ?thesis
    proof (cases "data v")
      case None
      with Inr fv show ?thesis by simp
    next
      case (Some d)
      with Inr fv have "transformValue E d limit p s = Inl e"
        by (simp split: sum.splits)
      from "1.IH" [OF refl v Inr Some this] show ?thesis .
    qed
  qed
qed

section \<open>The claims\<close>

text \<open>
  C1, as stated, fails on the code. With limit 1, the node \<open>Shoes\<close> has two children in
  the facet tree and one child in the result: the recursive call passes the same limit on.
  With limit \<open>-1\<close> the slice drops the last element only, so two top-level items are
  returned.
\<close>

theorem C1_children_truncated:
  "transformValue sampleEngine shoesTree 1 categoriesProps Map.empty
     = Inr [Item ''Shoes'' (Some (JsString ''Shoes'')) 10 False
              (Some [Item ''Sneakers'' (Some (JsString ''Shoes > Sneakers'')) 4 False None])]
   \<and> transformValue sampleEngine shoesTree (- 1) categoriesProps Map.empty
     = Inr [Item ''Shoes'' (Some (JsString ''Shoes'')) 10 False
              (Some [Item ''Sneakers'' (Some (JsString ''Shoes > Sneakers'')) 4 False None]),
            Item ''Hats'' (Some (JsString ''Hats'')) 3 False None]"
  by (simp add: transformValue.simps shoesTree_def slice0_def getValue_def
      getCurrentRefinement_def getId_def index0_def jsToString_def truthy_def categoriesProps_def
      getProperty_def objectPrototype_def)

text \<open>
  C1 (amended): for every facet-value tree and every limit that is not negative, a result
  of \<open>transformValue\<close> has the first \<open>min limit n\<close> of the \<open>n\<close> top-level nodes, so at most
  \<open>limit\<close> items, in the order of the input; and the same limit is applied again to the
  children of every node: a node without \<open>data\<close> has no children, and a node whose \<open>data\<close>
  has \<open>m\<close> elements has the \<open>min limit m\<close> children that \<open>transformValue\<close> returns for
  \<open>data\<close> under the same limit. There is a result whenever \<open>getValue\<close> returns one for
  every path, as it does behind the guard of \<open>getProps\<close> when no refinement is current or
  the library calls of \<open>getValue\<close> do not throw.
\<close>

theorem C1_limit_at_every_level:
  assumes "0 \<le> limit"
  shows "(\<forall>its. transformValue E vals limit p s = Inr its \<longrightarrow>
             length its = min (nat limit) (length vals)
           \<and> int (length its) \<le> limit
           \<and> (\<forall>k<length its.
                 label (its ! k) = name (vals ! k)
               \<and> (case data (vals ! k) of
                     None \<Rightarrow> children (its ! k) = None
                   | Some d \<Rightarrow>
                       \<exists>c. children (its ! k) = Some c
                         \<and> transformValue E d limit p s = Inr c
                         \<and> length c = min (nat limit) (length d))))
       \<and> ((\<forall>pth. \<not> isl (getValue E pth p s)) \<longrightarrow>
            (\<exists>its. transformValue E vals limit p s = Inr its))"
proof -
  have shape: "length its = min (nat limit) (length vals)
           \<and> int (length its) \<le> limit
           \<and> (\<forall>k<length its.
                 label (its ! k) = name (vals ! k)
               \<and> (case data (vals ! k) of
                     None \<Rightarrow> children (its ! k) = None
                   | Some d \<Rightarrow>
                       \<exists>c. children (its ! k) = Some c
                         \<and> transformValue E d limit p s = Inr c
                         \<and> length c = min (nat limit) (length d)))"
    if its: "transformValue E vals limit p s = Inr its" for its
  proof -
    from transformValue_nodes [OF its] assms
    have len: "length its = min (nat limit) (length vals)"
      by (simp add: length_slice0)
    with assms have bound: "int (length its) \<le> limit" by simp
    have "label (its ! k) = name (vals ! k)
               \<and> (case data (vals ! k) of
                     None \<Rightarrow> children (its ! k) = None
                   | Some d \<Rightarrow>
                       \<exists>c. children (its ! k) = Some c
                         \<and> transformValue E d limit p s = Inr c
                         \<and> length c = min (nat limit) (length d))"
      if k: "k < length its" for k
    proof -
      from transformValue_nodes [OF its] k
      obtain val ch where node: "its ! k = Item (name (vals ! k)) val (count (vals ! k))
                                  (isRefined (vals ! k)) ch"
        and ch: "case data (vals ! k) of
                    None \<Rightarrow> ch = None
                  | Some d \<Rightarrow> \<exists>c. ch = Some c \<and> transformValue E d limit p s = Inr c"
        by blast
      show ?thesis
      proof (cases "data (vals ! k)")
        case None
        with node ch show ?thesis by simp
      next
        case (Some d)
        with ch obtain c where c: "ch = Some c" "transformValue E d limit p s = Inr c"
          by auto
        from transformValue_nodes [OF c(2)] assms
        have "length c = min (nat limit) (length d)" by (simp add: length_slice0)
        with node Some c show ?thesis by simp
      qed
    qed
    with len bound show ?thesis by blast
  qed
  have returns: "\<exists>its. transformValue E vals limit p s = Inr its"
    if "\<forall>pth. \<not> isl (getValue E pth p s)"
    using transformValue_defined [of E p s vals limit] that
    by (cases "transformValue E vals limit p s") auto
  from shape returns show ?thesis by blast
qed

theorem C1_limit_at_every_level_witness:
  "\<exists>its. transformValue sampleEngine shoesTree 2 categoriesProps [''categories'' \<mapsto> ''Hats'']
           = Inr its
      \<and> length its = 2
      \<and> label (its ! 0) = ''Shoes''
      \<and> (\<exists>c. children (its ! 0) = Some c \<and> length c = 2)
      \<and> children (its ! 1) = None"
proof -
  let ?s = "[''categories'' \<mapsto> ''Hats'']"
  have ok: "\<forall>pth. \<not> isl (getValue sampleEngine pth categoriesProps ?s)"
    by (simp add: getValue_def getCurrentRefinement_def getId_def index0_def jsToString_def
        getProperty_def categoriesProps_def sampleEngine_def sampleToggle_def sampleRefinement_def)
  note inst = C1_limit_at_every_level [of 2 sampleEngine shoesTree categoriesProps ?s]
  from inst ok obtain its
    where its: "transformValue sampleEngine shoesTree 2 categoriesProps ?s = Inr its"
    by auto
  with inst have len: "length its = min (nat 2) (length shoesTree)"
    and nodes: "\<forall>k<length its.
                 label (its ! k) = name (shoesTree ! k)
               \<and> (case data (shoesTree ! k) of
                     None \<Rightarrow> children (its ! k) = None
                   | Some d \<Rightarrow>
                       \<exists>c. children (its ! k) = Some c
                         \<and> transformValue sampleEngine d 2 categoriesProps ?s = Inr c
                         \<and> length c = min (nat 2) (length d))"
    by auto
  from len have l2: "length its = 2" by (simp add: shoesTree_def)
  from l2 have k0: "0 < length its" and k1: "1 < length its" by simp_all
  note n0 = nodes [rule_format, OF k0] and n1 = nodes [rule_format, OF k1]
  from n0 have "label (its ! 0) = ''Shoes''" "\<exists>c. children (its ! 0) = Some c \<and> length c = 2"
    by (auto simp: shoesTree_def)
  moreover from n1 have "children (its ! 1) = None"
    by (simp add: shoesTree_def)
  ultimately show ?thesis using its l2 by blast
qed

text \<open>
  C2, as stated, at a config whose default refinement is present and is the empty string:
  the state has no entry, the default is present, and the result is \<open>null\<close>, not the default.
\<close>

theorem C2_default_present_not_returned:
  "defaultRefinement (categoriesProps\<lparr>defaultRefinement := Some ''''\<rparr>) = Some ''''
   \<and> getProperty Map.empty ''categories'' = None
   \<and> getCurrentRefinement (categoriesProps\<lparr>defaultRefinement := Some ''''\<rparr>) Map.empty = Inr None
   \<and> getCurrentRefinement (categoriesProps\<lparr>defaultRefinement := Some ''''\<rparr>) Map.empty
       \<noteq> Inr (map_option JsString
                 (defaultRefinement (categoriesProps\<lparr>defaultRefinement := Some ''''\<rparr>)))"
  by (simp add: getCurrentRefinement_def getId_def index0_def categoriesProps_def jsToString_def
      truthy_def getProperty_def objectPrototype_def)

text \<open>
  C2 (amended): for every config whose first attribute is \<open>i\<close> and every state, the current
  refinement resolves in this order, where \<open>state[i]\<close> is the property read (an own entry of
  the state, or else a member inherited from \<open>Object.prototype\<close>): a defined, non-empty
  \<open>state[i]\<close> is returned; a defined, empty \<open>state[i]\<close> gives \<open>null\<close> whatever the default
  is; when \<open>state[i]\<close> is undefined, the default refinement is returned when it is present
  and non-empty; otherwise the result is \<open>null\<close>. The read is the own entry when there is
  one, and it is undefined when there is none and \<open>i\<close> is not the name of an inherited
  member.
\<close>

theorem C2_resolution_order:
  assumes "attributes p = Some (i # rest)"
  shows "(getProperty s i = Some v \<and> v \<noteq> JsString [] \<longrightarrow>
            getCurrentRefinement p s = Inr (Some v))
       \<and> (getProperty s i = Some (JsString []) \<longrightarrow> getCurrentRefinement p s = Inr None)
       \<and> (getProperty s i = None \<and> defaultRefinement p = Some d \<and> d \<noteq> []
            \<longrightarrow> getCurrentRefinement p s = Inr (Some (JsString d)))
       \<and> (getProperty s i = None \<and> (defaultRefinement p = None \<or> defaultRefinement p = Some [])
            \<longrightarrow> getCurrentRefinement p s = Inr None)
       \<and> (\<forall>x. s i = Some x \<longrightarrow> getProperty s i = Some (JsString x))
       \<and> (s i = None \<and> objectPrototype i = None \<longrightarrow> getProperty s i = None)"
  using assms
  by (auto simp: getCurrentRefinement_first truthy_def getProperty_own getProperty_inherited)

theorem C2_resolution_order_witness:
  "getCurrentRefinement (categoriesProps\<lparr>defaultRefinement := Some ''clothing''\<rparr>)
     [''categories'' \<mapsto> ''shoes''] = Inr (Some (JsString ''shoes''))
   \<and> getCurrentRefinement (categoriesProps\<lparr>defaultRefinement := Some ''clothing''\<rparr>)
     [''categories'' \<mapsto> ''''] = Inr None
   \<and> getCurrentRefinement (categoriesProps\<lparr>defaultRefinement := Some ''clothing''\<rparr>)
     Map.empty = Inr (Some (JsString ''clothing''))
   \<and> getCurrentRefinement categoriesProps Map.empty = Inr None
   \<and> getCurrentRefinement
       (categoriesProps\<lparr>attributes := Some [''valueOf''], defaultRefinement := Some ''clothing''\<rparr>)
       Map.empty = Inr (Some (NativeFunction ''valueOf''))"
proof -
  let ?p = "categoriesProps\<lparr>defaultRefinement := Some ''clothing''\<rparr>"
  let ?q = "categoriesProps\<lparr>attributes := Some [''valueOf''],
              defaultRefinement := Some ''clothing''\<rparr>"
  have a: "attributes ?p = Some [''categories'']" "attributes categoriesProps = Some [''categories'']"
    and b: "attributes ?q = Some [''valueOf'']"
    and d: "defaultRefinement ?p = Some ''clothing''" "defaultRefinement categoriesProps = None"
    by (simp_all add: categoriesProps_def)
  have g0: "getProperty Map.empty ''categories'' = None"
    and g1: "getProperty [''categories'' \<mapsto> ''shoes''] ''categories'' = Some (JsString ''shoes'')"
    and g2: "getProperty [''categories'' \<mapsto> ''''] ''categories'' = Some (JsString '''')"
    and g3: "getProperty Map.empty ''valueOf'' = Some (NativeFunction ''valueOf'')"
    by (simp_all add: getProperty_def objectPrototype_def)
  from C2_resolution_order [OF a(1), of "[''categories'' \<mapsto> ''shoes'']" "JsString ''shoes''"] g1
  have 1: "getCurrentRefinement ?p [''categories'' \<mapsto> ''shoes''] = Inr (Some (JsString ''shoes''))"
    by simp
  from C2_resolution_order [OF a(1), of "[''categories'' \<mapsto> '''']"] g2
  have 2: "getCurrentRefinement ?p [''categories'' \<mapsto> ''''] = Inr None"
    by simp
  from C2_resolution_order [OF a(1), of Map.empty _ "''clothing''"] g0 d(1)
  have 3: "getCurrentRefinement ?p Map.empty = Inr (Some (JsString ''clothing''))"
    by simp
  from C2_resolution_order [OF a(2), of Map.empty] g0 d(2)
  have 4: "getCurrentRefinement categoriesProps Map.empty = Inr None"
    by simp
  from C2_resolution_order [OF b, of Map.empty "NativeFunction ''valueOf''"] g3
  have 5: "getCurrentRefinement ?q Map.empty = Inr (Some (NativeFunction ''valueOf''))"
    by simp
  from 1 2 3 4 5 show ?thesis by simp
qed

text \<open>
  C3, as stated, fails on the code: with a non-empty attribute list an operation can fail
  with an error that is not the configuration error, because the library calls it makes can
  throw. Here the search parameters already declare a hierarchical facet named
  \<open>categories\<close>, and adding it again throws.
\<close>

theorem C3_library_failure:
  "attributes categoriesProps = Some [''categories'']
   \<and> isl (getSearchParameters sampleEngine
            (emptySearchParameters\<lparr>sp_hierarchicalFacets :=
               [\<lparr> hf_name = Some ''categories'', hf_attributes = Some [''categories''],
                  hf_separator = '' > '', hf_rootPath = None, hf_showParentLevel = True \<rparr>]\<rparr>)
            categoriesProps Map.empty)
   \<and> getSearchParameters sampleEngine
         (emptySearchParameters\<lparr>sp_hierarchicalFacets :=
            [\<lparr> hf_name = Some ''categories'', hf_attributes = Some [''categories''],
               hf_separator = '' > '', hf_rootPath = None, hf_showParentLevel = True \<rparr>]\<rparr>)
         categoriesProps Map.empty
       \<noteq> Inl (Error ''attributes props should at least have one element'')"
  by (simp add: getSearchParameters_def getId_def index0_def categoriesProps_def
      sampleEngine_def emptySearchParameters_def jsToString_def)

text \<open>
  C3 (amended): for every config whose attribute list is undefined or empty, each of the
  four operations (\<open>getProps\<close>, \<open>refine\<close>, \<open>getSearchParameters\<close>, \<open>getMetadata\<close>) fails with
  the configuration error. With a non-empty attribute list, \<open>refine\<close> and \<open>getMetadata\<close>
  always return a value, and an error of \<open>getProps\<close>, of \<open>getSearchParameters\<close> or of
  \<open>getValue\<close> is an exception thrown by one of the library calls it makes: the connector
  adds no failure of its own.
\<close>

theorem C3_configuration_error:
  "(attributes p = None \<or> attributes p = Some [] \<longrightarrow>
      getProps E p s srch = Inl (Error ''attributes props should at least have one element'')
    \<and> refine p s nx = Inl (Error ''attributes props should at least have one element'')
    \<and> getSearchParameters E sp p s
        = Inl (Error ''attributes props should at least have one element'')
    \<and> getMetadata p s = Inl (Error ''attributes props should at least have one element''))
   \<and> (\<forall>i rest. attributes p = Some (i # rest) \<longrightarrow>
         \<not> isl (refine p s nx) \<and> \<not> isl (getMetadata p s)
       \<and> (\<forall>e. getProps E p s srch = Inl e \<longrightarrow>
             (\<exists>r. results srch = Some r
                \<and> (getFacetByName r (Some i) = Inl e
                   \<or> getFacetValues r (Some i) sortBy = Inl e))
           \<or> (\<exists>pth. getValue E pth p s = Inl e))
       \<and> (\<forall>e. getSearchParameters E sp p s = Inl e \<longrightarrow>
             addHierarchicalFacet E sp
               \<lparr> hf_name = Some i, hf_attributes = attributes p,
                 hf_separator = separator p, hf_rootPath = rootPath p,
                 hf_showParentLevel = showParentLevel p \<rparr> = Inl e
           \<or> (\<exists>added. addHierarchicalFacet E sp
                           \<lparr> hf_name = Some i, hf_attributes = attributes p,
                             hf_separator = separator p, hf_rootPath = rootPath p,
                             hf_showParentLevel = showParentLevel p \<rparr> = Inr added
                 \<and> setQueryParameters E added
                         (max (case maxValuesPerFacet E sp of None \<Rightarrow> 0 | Some m \<Rightarrow> m)
                              (if showMore p then limitMax p else limitMin p)) = Inl e)
           \<or> (\<exists>sp' cur. getCurrentRefinement p s = Inr (Some cur)
                 \<and> toggleHierarchicalFacetRefinement E sp' (Some i) cur = Inl e))
       \<and> (\<forall>pth e. getValue E pth p s = Inl e \<longrightarrow>
             (\<exists>cur. getCurrentRefinement p s = Inr (Some cur)
                \<and> (newSearchParameters E
                      [\<lparr> hf_name = id_prop p, hf_attributes = attributes p,
                         hf_separator = separator p, hf_rootPath = rootPath p,
                         hf_showParentLevel = showParentLevel p \<rparr>] = Inl e
                   \<or> (\<exists>q v. toggleHierarchicalFacetRefinement E q (id_prop p) v = Inl e)
                   \<or> (\<exists>q. getHierarchicalRefinement E q (id_prop p) = Inl e)))))"
proof -
  have bad: "getProps E p s srch = Inl (Error ''attributes props should at least have one element'')
    \<and> refine p s nx = Inl (Error ''attributes props should at least have one element'')
    \<and> getSearchParameters E sp p s
        = Inl (Error ''attributes props should at least have one element'')
    \<and> getMetadata p s = Inl (Error ''attributes props should at least have one element'')"
    if "attributes p = None \<or> attributes p = Some []"
    using that
    by (auto simp: getProps_def refine_def getSearchParameters_def getMetadata_def)
  have good: "\<not> isl (refine p s nx) \<and> \<not> isl (getMetadata p s)
       \<and> (\<forall>e. getProps E p s srch = Inl e \<longrightarrow>
             (\<exists>r. results srch = Some r
                \<and> (getFacetByName r (Some i) = Inl e
                   \<or> getFacetValues r (Some i) sortBy = Inl e))
           \<or> (\<exists>pth. getValue E pth p s = Inl e))
       \<and> (\<forall>e. getSearchParameters E sp p s = Inl e \<longrightarrow>
             addHierarchicalFacet E sp
               \<lparr> hf_name = Some i, hf_attributes = attributes p,
                 hf_separator = separator p, hf_rootPath = rootPath p,
                 hf_showParentLevel = showParentLevel p \<rparr> = Inl e
           \<or> (\<exists>added. addHierarchicalFacet E sp
                           \<lparr> hf_name = Some i, hf_attributes = attributes p,
                             hf_separator = separator p, hf_rootPath = rootPath p,
                             hf_showParentLevel = showParentLevel p \<rparr> = Inr added
                 \<and> setQueryParameters E added
                         (max (case maxValuesPerFacet E sp of None \<Rightarrow> 0 | Some m \<Rightarrow> m)
                              (if showMore p then limitMax p else limitMin p)) = Inl e)
           \<or> (\<exists>sp' cur. getCurrentRefinement p s = Inr (Some cur)
                 \<and> toggleHierarchicalFacetRefinement E sp' (Some i) cur = Inl e))
       \<and> (\<forall>pth e. getValue E pth p s = Inl e \<longrightarrow>
             (\<exists>cur. getCurrentRefinement p s = Inr (Some cur)
                \<and> (newSearchParameters E
                      [\<lparr> hf_name = id_prop p, hf_attributes = attributes p,
                         hf_separator = separator p, hf_rootPath = rootPath p,
                         hf_showParentLevel = showParentLevel p \<rparr>] = Inl e
                   \<or> (\<exists>q v. toggleHierarchicalFacetRefinement E q (id_prop p) v = Inl e)
                   \<or> (\<exists>q. getHierarchicalRefinement E q (id_prop p) = Inl e))))"
    if a: "attributes p = Some (i # rest)" for i rest
  proof -
    obtain cur where cur: "getCurrentRefinement p s = Inr cur"
      using a by (simp add: getCurrentRefinement_first)
    have 1: "\<not> isl (refine p s nx)"
      by (simp add: refine_first [OF a])
    have 2: "\<not> isl (getMetadata p s)"
      by (simp add: getMetadata_first [OF a cur])
    have 3: "(\<exists>r. results srch = Some r
                \<and> (getFacetByName r (Some i) = Inl e
                   \<or> getFacetValues r (Some i) sortBy = Inl e))
           \<or> (\<exists>pth. getValue E pth p s = Inl e)"
      if e: "getProps E p s srch = Inl e" for e
    proof (cases "results srch")
      case None
      with e show ?thesis by (simp add: getProps_first [OF a])
    next
      case (Some r)
      show ?thesis
      proof (cases "getFacetByName r (Some i)")
        case (Inl e')
        with e Some show ?thesis by (simp add: getProps_first [OF a])
      next
        case present: (Inr isFacetPresent)
        show ?thesis
        proof (cases "getFacetValues r (Some i) sortBy")
          case (Inl e')
          with e Some present show ?thesis
            by (simp add: getProps_first [OF a] split: if_splits)
        next
          case (Inr val)
          with e Some present cur
          have "\<exists>d. transformValue E d (if showMore p then limitMax p else limitMin p) p s = Inl e"
            by (auto simp: getProps_first [OF a] split: if_splits option.splits sum.splits)
          then show ?thesis
            using transformValue_error_from_getValue by blast
        qed
      qed
    qed
    have 4: "addHierarchicalFacet E sp
               \<lparr> hf_name = Some i, hf_attributes = attributes p,
                 hf_separator = separator p, hf_rootPath = rootPath p,
                 hf_showParentLevel = showParentLevel p \<rparr> = Inl e
           \<or> (\<exists>added. addHierarchicalFacet E sp
                           \<lparr> hf_name = Some i, hf_attributes = attributes p,
                             hf_separator = separator p, hf_rootPath = rootPath p,
                             hf_showParentLevel = showParentLevel p \<rparr> = Inr added
                 \<and> setQueryParameters E added
                         (max (case maxValuesPerFacet E sp of None \<Rightarrow> 0 | Some m \<Rightarrow> m)
                              (if showMore p then limitMax p else limitMin p)) = Inl e)
           \<or> (\<exists>sp' cur. getCurrentRefinement p s = Inr (Some cur)
                 \<and> toggleHierarchicalFacetRefinement E sp' (Some i) cur = Inl e)"
      if e: "getSearchParameters E sp p s = Inl e" for e
      using e cur
      by (auto simp: getSearchParameters_first [OF a] split: sum.splits option.splits)
    have 5: "\<exists>cur. getCurrentRefinement p s = Inr (Some cur)
                \<and> (newSearchParameters E
                      [\<lparr> hf_name = id_prop p, hf_attributes = attributes p,
                         hf_separator = separator p, hf_rootPath = rootPath p,
                         hf_showParentLevel = showParentLevel p \<rparr>] = Inl e
                   \<or> (\<exists>q v. toggleHierarchicalFacetRefinement E q (id_prop p) v = Inl e)
                   \<or> (\<exists>q. getHierarchicalRefinement E q (id_prop p) = Inl e))"
      if e: "getValue E pth p s = Inl e" for pth e
      using e cur
      by (auto simp: getValue_def split: sum.splits option.splits)
    from 1 2 3 4 5 show ?thesis by blast
  qed
  from bad good show ?thesis by blast
qed

theorem C3_configuration_error_witness:
  "getProps sampleEngine (categoriesProps\<lparr>attributes := None\<rparr>) Map.empty \<lparr>results = None\<rparr>
     = Inl (Error ''attributes props should at least have one element'')
   \<and> refine (categoriesProps\<lparr>attributes := None\<rparr>) Map.empty (Some ''Shoes'')
     = Inl (Error ''attributes props should at least have one element'')
   \<and> getSearchParameters sampleEngine emptySearchParameters
       (categoriesProps\<lparr>attributes := Some []\<rparr>) Map.empty
     = Inl (Error ''attributes props should at least have one element'')
   \<and> getMetadata (categoriesProps\<lparr>attributes := Some []\<rparr>) Map.empty
     = Inl (Error ''attributes props should at least have one element'')
   \<and> \<not> isl (refine categoriesProps Map.empty (Some ''Shoes''))
   \<and> \<not> isl (getMetadata categoriesProps Map.empty)
   \<and> \<not> isl (getProps sampleEngine categoriesProps [''categories'' \<mapsto> ''Shoes'']
              \<lparr>results = Some sampleResults\<rparr>)
   \<and> \<not> isl (getSearchParameters sampleEngine emptySearchParameters categoriesProps
              [''categories'' \<mapsto> ''Shoes''])"
proof -
  let ?s = "[''categories'' \<mapsto> ''Shoes'']"
  let ?srch = "\<lparr>results = Some sampleResults\<rparr>"
  have a: "attributes categoriesProps = Some [''categories'']"
    by (simp add: categoriesProps_def)
  note bad1 = C3_configuration_error [of "categoriesProps\<lparr>attributes := None\<rparr>" sampleEngine
      Map.empty "\<lparr>results = None\<rparr>" "Some ''Shoes''" emptySearchParameters]
  note bad2 = C3_configuration_error [of "categoriesProps\<lparr>attributes := Some []\<rparr>" sampleEngine
      Map.empty "\<lparr>results = None\<rparr>" "Some ''Shoes''" emptySearchParameters]
  note good0 = C3_configuration_error [of categoriesProps sampleEngine Map.empty
      "\<lparr>results = None\<rparr>" "Some ''Shoes''" emptySearchParameters,
      THEN conjunct2, rule_format, OF a]
  note good = C3_configuration_error [of categoriesProps sampleEngine ?s ?srch
      "Some ''Shoes''" emptySearchParameters, THEN conjunct2, rule_format, OF a]
  have cur: "getCurrentRefinement categoriesProps ?s = Inr (Some (JsString ''Shoes''))"
    by (simp add: getCurrentRefinement_first [OF a] getProperty_def)
  have new: "\<not> isl (newSearchParameters sampleEngine hs)" for hs
    by (simp add: sampleEngine_def)
  have get: "\<not> isl (getHierarchicalRefinement sampleEngine q f)" for q f
    by (simp add: sampleEngine_def)
  have setq: "\<not> isl (setQueryParameters sampleEngine q n)" for q n
    by (simp add: sampleEngine_def)
  have gv: "getValue sampleEngine pth categoriesProps ?s \<noteq> Inl e" for pth e
    by (simp add: getValue_def cur sampleEngine_def sampleToggle_def sampleRefinement_def)
  have res: "getFacetByName sampleResults (Some ''categories'') \<noteq> Inl e"
    "getFacetValues sampleResults (Some ''categories'') sortBy \<noteq> Inl e" for e
    by (simp_all add: sampleResults_def)
  have props: "getProps sampleEngine categoriesProps ?s ?srch \<noteq> Inl e" for e
    using good [THEN conjunct2, THEN conjunct2, THEN conjunct1, rule_format, of e] gv res
    by auto
  have gsp: "getSearchParameters sampleEngine emptySearchParameters categoriesProps ?s \<noteq> Inl e"
    for e
    by (simp add: getSearchParameters_first [OF a] cur sampleEngine_def sampleToggle_def
        sampleRefinement_def emptySearchParameters_def)
  from props have p': "\<not> isl (getProps sampleEngine categoriesProps ?s ?srch)"
    by (cases "getProps sampleEngine categoriesProps ?s ?srch") auto
  from gsp have g': "\<not> isl (getSearchParameters sampleEngine emptySearchParameters
                          categoriesProps ?s)"
    by (cases "getSearchParameters sampleEngine emptySearchParameters categoriesProps ?s") auto
  from bad1 bad2 good0 p' g' show ?thesis
    by simp
qed

text \<open>
  C4: for every config with a non-empty attribute list and every state, \<open>refine\<close> with a
  non-empty value gives a state on which the current refinement is that value, and
  \<open>refine\<close> with \<open>null\<close> or \<open>undefined\<close> sets the entry to the empty string, so that the
  current refinement on the result is \<open>null\<close>.
\<close>

theorem C4_refine_roundtrip:
  assumes "attributes p = Some (i # rest)"
  shows "(v \<noteq> [] \<longrightarrow>
            (\<exists>s'. refine p s (Some v) = Inr s'
                 \<and> getCurrentRefinement p s' = Inr (Some (JsString v))))
       \<and> (\<exists>s'. refine p s None = Inr s' \<and> s' i = Some []
                \<and> getCurrentRefinement p s' = Inr None)"
  using assms
  by (simp add: refine_first getCurrentRefinement_first truthy_def jsToString_def
      getProperty_def)

theorem C4_refine_roundtrip_witness:
  "(\<exists>s'. refine categoriesProps [''categories'' \<mapsto> ''x''] (Some ''a > b'') = Inr s'
          \<and> getCurrentRefinement categoriesProps s' = Inr (Some (JsString ''a > b'')))
   \<and> (\<exists>s'. refine categoriesProps [''categories'' \<mapsto> ''x''] None = Inr s'
          \<and> s' ''categories'' = Some [] \<and> getCurrentRefinement categoriesProps s' = Inr None)"
  using C4_refine_roundtrip [of categoriesProps "''categories''" "[]" "''a > b''"
      "[''categories'' \<mapsto> ''x'']"]
  by (simp add: categoriesProps_def)

text \<open>
  C5: for every search-parameters value and every config with a non-empty attribute list,
  the \<open>maxValuesPerFacet\<close> of a result of \<open>getSearchParameters\<close> is at least the active
  limit (\<open>limitMax\<close> when \<open>showMore\<close>, else \<open>limitMin\<close>) and at least the
  \<open>maxValuesPerFacet\<close> of the input; and there is a result whenever the three library calls
  return. The engine is the external library: the theorem takes from it that a
  \<open>setQueryParameters\<close> that returns has set the field, and that a toggle of a refinement
  that returns has left it as it is.
\<close>

theorem C5_maxValuesPerFacet_not_lowered:
  assumes setMax:
      "\<And>q n q'. setQueryParameters E q n = Inr q' \<Longrightarrow> maxValuesPerFacet E q' = Some n"
    and toggleKeeps:
      "\<And>q f v q'. toggleHierarchicalFacetRefinement E q f v = Inr q'
                 \<Longrightarrow> maxValuesPerFacet E q' = maxValuesPerFacet E q"
    and attrs: "attributes p = Some (i # rest)"
  shows "(\<forall>sp'. getSearchParameters E sp p s = Inr sp' \<longrightarrow>
            (\<exists>m. maxValuesPerFacet E sp' = Some m
               \<and> (if showMore p then limitMax p else limitMin p) \<le> m
               \<and> (case maxValuesPerFacet E sp of None \<Rightarrow> True | Some m0 \<Rightarrow> m0 \<le> m)))
       \<and> (\<forall>added sp'.
             addHierarchicalFacet E sp
               \<lparr> hf_name = Some i, hf_attributes = attributes p,
                 hf_separator = separator p, hf_rootPath = rootPath p,
                 hf_showParentLevel = showParentLevel p \<rparr> = Inr added
           \<and> setQueryParameters E added
                (max (case maxValuesPerFacet E sp of None \<Rightarrow> 0 | Some m \<Rightarrow> m)
                     (if showMore p then limitMax p else limitMin p)) = Inr sp'
           \<and> (\<forall>cur. getCurrentRefinement p s = Inr (Some cur) \<longrightarrow>
                  \<not> isl (toggleHierarchicalFacetRefinement E sp' (Some i) cur))
           \<longrightarrow> (\<exists>sp''. getSearchParameters E sp p s = Inr sp''))"
proof -
  let ?n = "max (case maxValuesPerFacet E sp of None \<Rightarrow> 0 | Some m \<Rightarrow> m)
                (if showMore p then limitMax p else limitMin p)"
  obtain cur where cur: "getCurrentRefinement p s = Inr cur"
    using attrs by (simp add: getCurrentRefinement_first)
  have bound: "\<exists>m. maxValuesPerFacet E sp' = Some m
               \<and> (if showMore p then limitMax p else limitMin p) \<le> m
               \<and> (case maxValuesPerFacet E sp of None \<Rightarrow> True | Some m0 \<Rightarrow> m0 \<le> m)"
    if r: "getSearchParameters E sp p s = Inr sp'" for sp'
  proof -
    from r obtain added q where q: "setQueryParameters E added ?n = Inr q"
      and fin: "cur = None \<and> sp' = q
                \<or> (\<exists>c. cur = Some c \<and> toggleHierarchicalFacetRefinement E q (Some i) c = Inr sp')"
      using cur
      by (auto simp: getSearchParameters_first [OF attrs] split: sum.splits option.splits)
    from setMax [OF q] have mq: "maxValuesPerFacet E q = Some ?n" .
    from fin toggleKeeps mq have "maxValuesPerFacet E sp' = Some ?n" by auto
    then show ?thesis by (simp split: option.splits)
  qed
  have returns: "\<exists>sp''. getSearchParameters E sp p s = Inr sp''"
    if "addHierarchicalFacet E sp
               \<lparr> hf_name = Some i, hf_attributes = attributes p,
                 hf_separator = separator p, hf_rootPath = rootPath p,
                 hf_showParentLevel = showParentLevel p \<rparr> = Inr added"
      and "setQueryParameters E added ?n = Inr sp'"
      and "\<forall>cur. getCurrentRefinement p s = Inr (Some cur) \<longrightarrow>
                  \<not> isl (toggleHierarchicalFacetRefinement E sp' (Some i) cur)"
    for added sp'
  proof (cases cur)
    case None
    with that cur show ?thesis by (simp add: getSearchParameters_first [OF attrs])
  next
    case (Some c)
    with that(3) cur obtain q where "toggleHierarchicalFacetRefinement E sp' (Some i) c = Inr q"
      by (cases "toggleHierarchicalFacetRefinement E sp' (Some i) c") auto
    with that(1,2) cur Some show ?thesis by (simp add: getSearchParameters_first [OF attrs])
  qed
  from bound returns show ?thesis by blast
qed

theorem C5_maxValuesPerFacet_not_lowered_witness:
  "\<exists>sp' m. getSearchParameters sampleEngine (emptySearchParameters\<lparr>sp_maxValuesPerFacet := Some 50\<rparr>)
               categoriesProps [''categories'' \<mapsto> ''Shoes''] = Inr sp'
      \<and> sp_maxValuesPerFacet sp' = Some m \<and> 10 \<le> m \<and> 50 \<le> m"
proof -
  let ?sp = "emptySearchParameters\<lparr>sp_maxValuesPerFacet := Some 50\<rparr>"
  let ?s = "[''categories'' \<mapsto> ''Shoes'']"
  let ?hf = "\<lparr> hf_name = Some ''categories'', hf_attributes = attributes categoriesProps,
               hf_separator = separator categoriesProps, hf_rootPath = rootPath categoriesProps,
               hf_showParentLevel = showParentLevel categoriesProps \<rparr>"
  have a: "attributes categoriesProps = Some [''categories'']"
    by (simp add: categoriesProps_def)
  have m: "maxValuesPerFacet sampleEngine = sp_maxValuesPerFacet"
    by (simp add: sampleEngine_def)
  have l: "(if showMore categoriesProps then limitMax categoriesProps
            else limitMin categoriesProps) = 10"
    by (simp add: categoriesProps_def)
  have ex: "\<exists>sp''. getSearchParameters sampleEngine ?sp categoriesProps ?s = Inr sp''"
  proof (rule C5_maxValuesPerFacet_not_lowered [of sampleEngine categoriesProps "''categories''"
        "[]" ?sp ?s, THEN conjunct2, rule_format])
    show "maxValuesPerFacet sampleEngine q' = Some n"
      if "setQueryParameters sampleEngine q n = Inr q'" for q n q'
      using that by (auto simp: sampleEngine_def)
    show "maxValuesPerFacet sampleEngine q' = maxValuesPerFacet sampleEngine q"
      if "toggleHierarchicalFacetRefinement sampleEngine q f v = Inr q'" for q f v q'
      using that
      by (auto simp: sampleEngine_def sampleToggle_def split: list.splits jsValue.splits)
    show "attributes categoriesProps = Some [''categories'']" by (rule a)
    show "addHierarchicalFacet sampleEngine ?sp ?hf
            = Inr (?sp\<lparr>sp_hierarchicalFacets := [?hf]\<rparr>)
        \<and> setQueryParameters sampleEngine (?sp\<lparr>sp_hierarchicalFacets := [?hf]\<rparr>)
            (max (case maxValuesPerFacet sampleEngine ?sp of None \<Rightarrow> 0 | Some m \<Rightarrow> m)
                 (if showMore categoriesProps then limitMax categoriesProps
                  else limitMin categoriesProps))
            = Inr (?sp\<lparr>sp_hierarchicalFacets := [?hf], sp_maxValuesPerFacet := Some 50\<rparr>)
        \<and> (\<forall>cur. getCurrentRefinement categoriesProps ?s = Inr (Some cur) \<longrightarrow>
              \<not> isl (toggleHierarchicalFacetRefinement sampleEngine
                       (?sp\<lparr>sp_hierarchicalFacets := [?hf], sp_maxValuesPerFacet := Some 50\<rparr>)
                       (Some ''categories'') cur))"
      by (simp add: sampleEngine_def sampleToggle_def sampleRefinement_def
          emptySearchParameters_def l)
  qed
  then obtain sp' where sp': "getSearchParameters sampleEngine ?sp categoriesProps ?s = Inr sp'"
    by blast
  have "\<exists>m. maxValuesPerFacet sampleEngine sp' = Some m
          \<and> (if showMore categoriesProps then limitMax categoriesProps
              else limitMin categoriesProps) \<le> m
          \<and> (case maxValuesPerFacet sampleEngine ?sp of None \<Rightarrow> True | Some m0 \<Rightarrow> m0 \<le> m)"
  proof (rule C5_maxValuesPerFacet_not_lowered [of sampleEngine categoriesProps "''categories''"
        "[]" ?sp ?s, THEN conjunct1, rule_format])
    show "maxValuesPerFacet sampleEngine q' = Some n"
      if "setQueryParameters sampleEngine q n = Inr q'" for q n q'
      using that by (auto simp: sampleEngine_def)
    show "maxValuesPerFacet sampleEngine q' = maxValuesPerFacet sampleEngine q"
      if "toggleHierarchicalFacetRefinement sampleEngine q f v = Inr q'" for q f v q'
      using that
      by (auto simp: sampleEngine_def sampleToggle_def split: list.splits jsValue.splits)
    show "attributes categoriesProps = Some [''categories'']" by (rule a)
    show "getSearchParameters sampleEngine ?sp categoriesProps ?s = Inr sp'" by (rule sp')
  qed
  with sp' show ?thesis
    by (auto simp: m l emptySearchParameters_def)
qed

text \<open>
  C6: for every config with a non-empty attribute list and every state, \<open>getMetadata\<close>
  returns no item when no refinement is current, and otherwise exactly one item: its label
  is the first attribute, a colon and a space, then the current refinement (as a string);
  its attribute name is the first attribute; and its clear function maps any state to that
  state with the widget's entry set to the empty string.
\<close>

theorem C6_metadata:
  assumes "attributes p = Some (i # rest)"
  shows "\<exists>m. getMetadata p s = Inr m
           \<and> (getCurrentRefinement p s = Inr None \<longrightarrow> md_items m = [])
           \<and> (\<forall>c. getCurrentRefinement p s = Inr (Some c) \<longrightarrow>
                 (\<exists>e. md_items m = [e]
                      \<and> md_label e = i @ '': '' @ valueToString (Some c)
                      \<and> (\<forall>x. c = JsString x \<longrightarrow> md_label e = i @ '': '' @ x)
                      \<and> md_attributeName e = Some i
                      \<and> md_currentRefinement e = Some c
                      \<and> (\<forall>st. md_value e st i = Some [])
                      \<and> (\<forall>st. md_value e st = st(i \<mapsto> []))))"
proof -
  obtain cur where cur: "getCurrentRefinement p s = Inr cur"
    using assms by (simp add: getCurrentRefinement_first)
  show ?thesis
  proof (cases cur)
    case None
    with cur assms show ?thesis by (simp add: getMetadata_first truthyValue_def)
  next
    case (Some c)
    with cur have "truthyValue (Some c)" by (simp add: getCurrentRefinement_truthy)
    with Some cur assms show ?thesis
      by (simp add: getMetadata_first valueToString_def)
  qed
qed

theorem C6_metadata_witness:
  "(\<exists>m. getMetadata categoriesProps Map.empty = Inr m \<and> md_items m = [])
   \<and> (\<exists>m e. getMetadata categoriesProps [''categories'' \<mapsto> ''Shoes''] = Inr m
          \<and> md_items m = [e] \<and> md_label e = ''categories: Shoes''
          \<and> md_attributeName e = Some ''categories''
          \<and> md_value e [''brand'' \<mapsto> ''x'', ''categories'' \<mapsto> ''Shoes'']
              = [''brand'' \<mapsto> ''x'', ''categories'' \<mapsto> ''''])"
proof -
  have a: "attributes categoriesProps = Some [''categories'']"
    by (simp add: categoriesProps_def)
  have d: "defaultRefinement categoriesProps = None"
    by (simp add: categoriesProps_def)
  have r0: "getCurrentRefinement categoriesProps Map.empty = Inr None"
    by (simp add: getCurrentRefinement_first [OF a] truthy_def d getProperty_def
        objectPrototype_def)
  have r1: "getCurrentRefinement categoriesProps [''categories'' \<mapsto> ''Shoes'']
              = Inr (Some (JsString ''Shoes''))"
    by (simp add: getCurrentRefinement_first [OF a] getProperty_def)
  from C6_metadata [OF a, of Map.empty] r0
  have w0: "\<exists>m. getMetadata categoriesProps Map.empty = Inr m \<and> md_items m = []"
    by auto
  from C6_metadata [OF a, of "[''categories'' \<mapsto> ''Shoes'']"] r1
  obtain m e where m: "getMetadata categoriesProps [''categories'' \<mapsto> ''Shoes''] = Inr m"
    and e: "md_items m = [e]" "md_label e = ''categories'' @ '': '' @ ''Shoes''"
      "md_attributeName e = Some ''categories''"
      "\<forall>st. md_value e st = st(''categories'' \<mapsto> [])"
    by auto
  from e(4) have "md_value e [''brand'' \<mapsto> ''x'', ''categories'' \<mapsto> ''Shoes'']
              = [''brand'' \<mapsto> ''x'', ''categories'' \<mapsto> '''']"
    by simp
  with m e w0 show ?thesis by auto
qed



text \<open>
  C8: \<open>refine\<close> is a functional update: for every state and next value it returns a mapping
  in which every key other than the widget's identifier has the value it has in the input
  state; and on the store the result is a new object, at an address other than the
  state's, and every object that was allocated before, the input state among them, is
  unchanged.
\<close>

theorem C8_refine_frame:
  assumes "attributes p = Some (i # rest)"
  shows "(\<exists>s'. refine p s nx = Inr s' \<and> (\<forall>k. k \<noteq> i \<longrightarrow> s' k = s k))
       \<and> (a < fresh h \<longrightarrow>
            (\<exists>h' a'. refineStore p h a nx = Inr (h', a') \<and> a' \<noteq> a
               \<and> (\<forall>b. b < fresh h \<longrightarrow> objects h' b = objects h b)
               \<and> refine p (objects h a) nx = Inr (objects h' a')))"
proof -
  have frame: "\<exists>s'. refine p s nx = Inr s' \<and> (\<forall>k. k \<noteq> i \<longrightarrow> s' k = s k)"
    using assms by (simp add: refine_first)
  have st: "\<exists>h' a'. refineStore p h a nx = Inr (h', a') \<and> a' \<noteq> a
               \<and> (\<forall>b. b < fresh h \<longrightarrow> objects h' b = objects h b)
               \<and> refine p (objects h a) nx = Inr (objects h' a')" if "a < fresh h"
    using assms that by (simp add: refineStore_def refine_first)
  from frame st show ?thesis by blast
qed

theorem C8_refine_frame_witness:
  "(\<exists>s'. refine categoriesProps [''brand'' \<mapsto> ''x'', ''categories'' \<mapsto> ''Shoes''] (Some ''Hats'')
            = Inr s' \<and> s' ''brand'' = Some ''x'')
   \<and> (\<exists>h' a'. refineStore categoriesProps sampleStore 0 (Some ''Hats'') = Inr (h', a')
          \<and> a' \<noteq> 0
          \<and> objects h' 0 = [''brand'' \<mapsto> ''x'', ''categories'' \<mapsto> ''Shoes'']
          \<and> objects h' a' = [''brand'' \<mapsto> ''x'', ''categories'' \<mapsto> ''Hats''])"
proof -
  have a: "attributes categoriesProps = Some [''categories'']"
    by (simp add: categoriesProps_def)
  have f: "fresh sampleStore = 1" and o: "objects sampleStore 0
      = [''brand'' \<mapsto> ''x'', ''categories'' \<mapsto> ''Shoes'']"
    by (simp_all add: sampleStore_def)
  have r: "refine categoriesProps [''brand'' \<mapsto> ''x'', ''categories'' \<mapsto> ''Shoes''] (Some ''Hats'')
      = Inr [''brand'' \<mapsto> ''x'', ''categories'' \<mapsto> ''Hats'']"
    by (simp add: refine_first [OF a] truthy_def jsToString_def)
  from C8_refine_frame [OF a, of "[''brand'' \<mapsto> ''x'', ''categories'' \<mapsto> ''Shoes'']"
      "Some ''Hats''" 0 sampleStore]
  show ?thesis
    by (auto simp: f o r)
qed




text \<open>
  C10: when the facet is present and the facet values have no \<open>data\<close>, \<open>getProps\<close> does
  not return \<open>null\<close>: it returns an object whose items are the empty sequence and whose
  current refinement is the one computed from the config and the state.
\<close>

theorem C10_getProps_no_data:
  assumes "attributes p = Some (i # rest)" and "results srch = Some r"
    and "getFacetByName r (Some i) = Inr True"
    and "getFacetValues r (Some i) sortBy = Inr val"
    and "fv_data val = None"
  shows "\<exists>cur. getCurrentRefinement p s = Inr cur
           \<and> getProps E p s srch = Inr (Some \<lparr> items = [], currentRefinement = cur \<rparr>)"
proof -
  obtain cur where cur: "getCurrentRefinement p s = Inr cur"
    using assms(1) by (simp add: getCurrentRefinement_first)
  with assms(2-5) show ?thesis
    by (simp add: getProps_first [OF assms(1)])
qed

theorem C10_getProps_no_data_witness:
  "getProps sampleEngine categoriesProps [''categories'' \<mapsto> ''Shoes'']
     \<lparr>results = Some \<lparr> getFacetByName = (\<lambda>n. Inr True),
                        getFacetValues = (\<lambda>n sb. Inr \<lparr> fv_data = None \<rparr>) \<rparr>\<rparr>
     = Inr (Some \<lparr> items = [], currentRefinement = Some (JsString ''Shoes'') \<rparr>)"
proof -
  have a: "attributes categoriesProps = Some [''categories'']"
    by (simp add: categoriesProps_def)
  have cur: "getCurrentRefinement categoriesProps [''categories'' \<mapsto> ''Shoes'']
               = Inr (Some (JsString ''Shoes''))"
    by (simp add: getCurrentRefinement_first [OF a] getProperty_def)
  from C10_getProps_no_data [OF a, of
      "\<lparr>results = Some \<lparr> getFacetByName = (\<lambda>n. Inr True),
                        getFacetValues = (\<lambda>n sb. Inr \<lparr> fv_data = None \<rparr>) \<rparr>\<rparr>"
      "\<lparr> getFacetByName = (\<lambda>n. Inr True), getFacetValues = (\<lambda>n sb. Inr \<lparr> fv_data = None \<rparr>) \<rparr>"
      "\<lparr> fv_data = None \<rparr>" "[''categories'' \<mapsto> ''Shoes'']" sampleEngine]
  show ?thesis by (simp add: cur)
qed

end
